theory Spec2Isabelle
  imports Complex_Main
begin

section \<open>Data model of the event dispatcher\<close>

text \<open>
  The development embeds \<^verbatim>\<open>js/src/dataGrid/event/EventManager.ts\<close>. JavaScript numbers
  that carry pixel amounts are modelled as \<open>real\<close> (the rounding of IEEE doubles is not
  modelled), key codes, row and column indices as \<open>int\<close>. An exception is a value: a
  handler returns \<open>Normal s\<close> when it returns and \<open>Throw e s\<close> when it throws \<open>e\<close>, where
  \<open>s\<close> is the state reached at that moment (the effects performed before a throw stay).
\<close>

datatype error = Unreachable | TypeError

datatype 'a completion = Normal 'a | Throw error 'a

fun state_of :: "'a completion \<Rightarrow> 'a" where
  "state_of (Normal s) = s"
| "state_of (Throw e s) = s"

datatype number = Number int | NaN

text \<open>
  Modelled from the spec: the enumeration \<^verbatim>\<open>COLUMN_TYPES\<close> of \<^verbatim>\<open>../column/enums\<close> is not
  among the sources. The dispatcher only compares a cell's type with its member \<open>index\<close>
  (the index column of the spec); every other column is a body column.
\<close>

datatype COLUMN_TYPES = COLUMN_TYPES_index | COLUMN_TYPES_body

text \<open>
  Modelled from the spec: the enumeration \<^verbatim>\<open>HIGHLIGHTER_TYPE\<close> of
  \<^verbatim>\<open>../interface/IHighlighterState\<close> is not among the sources; the dispatcher uses its
  members \<open>heatmap\<close> and \<open>uniqueEntries\<close>.
\<close>

datatype HIGHLIGHTER_TYPE = heatmap | uniqueEntries

text \<open>The four regions of the glossary: the strings \<^verbatim>\<open>'body'\<close>, \<^verbatim>\<open>'row-header'\<close>,
  \<^verbatim>\<open>'column-header'\<close> and \<^verbatim>\<open>'corner-header'\<close>.\<close>

datatype region = body | row_header | column_header | corner_header

text \<open>\<^verbatim>\<open>ICellData\<close>: the fields of a cell that the dispatcher reads.\<close>

record ICellData =
  cell_type :: COLUMN_TYPES
  region :: region
  row :: int
  column :: int
  width :: real
  delta :: real
  cell_value :: string

text \<open>A DOM node is identified by a number; \<open>target\<close> is the node an event was
  dispatched to.\<close>

record MouseEvent =
  clientX :: real
  clientY :: real
  buttons :: nat
  button :: nat
  target :: nat

record WheelEvent =
  deltaX :: real
  deltaY :: real
  deltaMode :: nat

text \<open>
  \<^verbatim>\<open>DataGridHelpers.getEventKeyCode\<close> is not among the sources: the code it returns for a
  keyboard event is the event's field \<open>keyCode\<close> (\<open>0\<close> is the falsy answer).
\<close>

record KeyboardEvent =
  keyCode :: int
  shiftKey :: bool

text \<open>
  The enumeration \<^verbatim>\<open>KEYBOARD_KEYS\<close> of \<^verbatim>\<open>./enums\<close> is not among the sources and the spec
  gives no values for it: the table is a parameter of the keyboard handlers.
\<close>

record KEYBOARD_KEYS =
  Enter :: int
  KeyH :: int
  KeyU :: int
  KeyB :: int
  Digit0 :: int
  Digit9 :: int
  ArrowLeft :: int
  ArrowRight :: int
  ArrowDown :: int
  ArrowUp :: int
  PageUp :: int
  PageDown :: int

text \<open>The three closures the constructor creates, and listeners of other owners.\<close>

datatype handler = handleMouseMove | handleMouseLeave | handleMouseDown | other_listener nat

text \<open>The two nodes the dispatcher registers listeners on.\<close>

datatype event_target = grid_node | tableDisplayView_el_node

text \<open>The callbacks of pending timeouts: the closure of \<^verbatim>\<open>clearReferences\<close>, and a hover
  callback scheduled by the owner of the timer in \<^verbatim>\<open>cellHoverControl\<close>.\<close>

datatype task = clear_cellHoverControl | hover_callback

text \<open>The outbound messages \<^verbatim>\<open>DoubleClickMessage(row, column)\<close> and
  \<^verbatim>\<open>ActionDetailsMessage(actionType, row, column)\<close>.\<close>

datatype message = DoubleClickMessage int int | ActionDetailsMessage string int int

datatype direction = up | down

type_synonym position = "region \<times> int"

text \<open>
  Every call the dispatcher makes on the host grid, on a controller, on the DOM or on the
  window is recorded, in order, in the grid's field \<open>calls\<close>.
\<close>

datatype call =
    AddEventListener event_target string handler
  | RemoveEventListener event_target string handler
  | SetTimeout task
  | ClearTimeout "nat option"
  | StopResizing
  | StartResizing MouseEvent
  | SetResizeMode MouseEvent
  | SetCursorStyle string
  | StartDragging ICellData
  | StopDragging
  | DropColumn
  | MoveDraggedHeader MouseEvent
  | SelectionHandleMouseUp MouseEvent
  | SelectionHandleMouseDown MouseEvent
  | HandleBodyCellHover MouseEvent
  | HandleCellInteraction ICellData
  | SetStartCell ICellData
  | SetEndCell "ICellData option"
  | SetFocusedCellByNavigationKey int
  | HideTooltips
  | CellHoveredEmit "ICellData option" MouseEvent
  | SetFocus bool
  | CommSignalEmit message
  | ScrollBy real real
  | ScrollByPage direction
  | ToggleSort position
  | ToggleHighlighter position HIGHLIGHTER_TYPE
  | ToggleDataBarsRenderer position
  | SetDataTypePrecision position number
  | SetColumnsDataTypePrecission number
  | WindowOpen string
  | StopPropagation
  | PreventDefault

text \<open>The classes of the managers and controllers of the grid are missing from the
  sources. Each record below holds the fields that the dispatcher reads and the state that
  the spec says the controller tracks.\<close>

text \<open>\<^verbatim>\<open>grid.rowManager.rows\<close>: the rows in rendered order, each with its logical
  \<^verbatim>\<open>index\<close>.\<close>

record DataGridRow =
  index :: int

record RowManager =
  rows :: "DataGridRow list"

text \<open>Modelled from the spec: the class \<^verbatim>\<open>DataGridColumn\<close> is missing; of the display
  properties a column carries, the model keeps the precision.\<close>

record DataGridColumn =
  precision :: number

text \<open>Modelled from the spec: the class \<^verbatim>\<open>ColumnManager\<close> is missing; it owns the columns,
  each identified by its position (region and index).\<close>

record ColumnManager =
  columns :: "position \<Rightarrow> DataGridColumn option"

text \<open>Modelled from the spec: the class \<^verbatim>\<open>DataGridResize\<close> is missing; it tracks an active
  resize gesture and determines the resize eligibility of an event from the cursor
  position, the answer of \<^verbatim>\<open>shouldResizeDataGrid\<close>.\<close>

record DataGridResize =
  resizing :: bool
  shouldResizeDataGrid :: "MouseEvent \<Rightarrow> bool"

text \<open>Modelled from the spec: the class \<^verbatim>\<open>ColumnPosition\<close> is missing; it tracks the
  drag-in-progress state, here the header cell whose drag is in progress. The dispatcher
  reads its field \<^verbatim>\<open>dropCellData\<close>.\<close>

record ColumnPosition =
  draggedCellData :: "ICellData option"
  dropCellData :: "ICellData option"

text \<open>Modelled from the spec: the class \<^verbatim>\<open>CellSelectionManager\<close> is missing; it tracks an
  anchor (start) cell, which the dispatcher reads as \<^verbatim>\<open>startCellData\<close>, and an end cell.\<close>

record CellSelectionManager =
  startCellData :: "ICellData option"
  endCellData :: "ICellData option"

text \<open>Modelled from the spec: the class \<^verbatim>\<open>CellFocusManager\<close> is missing; it tracks the
  single focused cell, which the dispatcher reads as \<^verbatim>\<open>focusedCellData\<close>, and computes the
  next focused cell for a navigation key by the grid's navigation rule, a parameter.\<close>

record CellFocusManager =
  focusedCellData :: "ICellData option"
  navigationRule :: "int \<Rightarrow> ICellData \<Rightarrow> ICellData"

text \<open>\<^verbatim>\<open>grid.cellManager.hoveredCellData\<close>, the cell last hovered, and the three selectors
  of \<^verbatim>\<open>grid.store\<close> that the dispatcher tests for truthiness.\<close>

record CellManager =
  hoveredCellData :: "ICellData option"

record BeakerXDataStore =
  selectHasDoubleClickAction :: bool
  selectDoubleClickTag :: bool
  selectAutoLinkTableLinks :: bool

record DOMRect =
  left :: real
  top :: real

record defaultSizes =
  columnWidth :: real
  rowHeight :: real

text \<open>
  The helpers \<^verbatim>\<open>EventHelpers.isOutsideNode\<close> (asked about the viewport's node),
  \<^verbatim>\<open>EventHelpers.isInsideGridNode\<close> (asked about the grid's node),
  \<^verbatim>\<open>CellManager.cellsEqual\<close>, \<^verbatim>\<open>DataGridHelpers.retrieveUrl\<close> and
  \<^verbatim>\<open>ColumnManager.createPositionFromCell\<close> are not among the sources: their answers are
  parameters.
\<close>

record helpers =
  isOutsideNode :: "MouseEvent \<Rightarrow> bool"
  isInsideGridNode :: "MouseEvent \<Rightarrow> bool"
  cellsEqual :: "ICellData \<Rightarrow> ICellData \<Rightarrow> bool"
  retrieveUrl :: "string \<Rightarrow> string option"
  createPositionFromCell :: "ICellData \<Rightarrow> position"

text \<open>
  \<^verbatim>\<open>BeakerXDataGrid\<close> with its controllers. The geometry and the spatial query
  \<^verbatim>\<open>getCellData\<close> are not among the sources: they are fields of the grid, fixed while
  one event is handled. \<open>node\<close> and \<open>tableDisplayView_el\<close> hold the listeners registered
  on the two DOM nodes, \<open>canvas\<close> is the node \<^verbatim>\<open>grid['_canvas']\<close>, \<open>viewport\<close> the rectangle
  \<^verbatim>\<open>grid.viewport.node.getBoundingClientRect()\<close>.
\<close>

record BeakerXDataGrid =
  node :: "(string \<times> handler) list"
  tableDisplayView_el :: "(string \<times> handler) list"
  canvas :: nat
  viewport :: DOMRect
  bodyWidth :: real
  getRowHeaderSections :: "nat list"
  headerHeight :: real
  defaultSizes :: defaultSizes
  pageWidth :: real
  pageHeight :: real
  focused :: bool
  getCellData :: "real \<Rightarrow> real \<Rightarrow> ICellData option"
  helpers :: helpers
  store :: BeakerXDataStore
  rowManager :: RowManager
  dataGridResize :: DataGridResize
  columnPosition :: ColumnPosition
  cellSelectionManager :: CellSelectionManager
  cellFocusManager :: CellFocusManager
  cellManager :: CellManager
  columnManager :: ColumnManager
  calls :: "call list"

definition record_call :: "call \<Rightarrow> BeakerXDataGrid \<Rightarrow> BeakerXDataGrid" where
  "record_call c g = g\<lparr>calls := calls g @ [c]\<rparr>"

section \<open>The host grid and the controllers\<close>

text \<open>
  The classes of the controllers are not among the sources. Each operation below records
  its call; where the spec says what the operation does to the state its controller
  tracks, the operation also updates that state, and only that state.
\<close>

subsection \<open>The grid widget, its signals and the window\<close>

text \<open>\<^verbatim>\<open>DataGrid.scrollBy\<close> and \<^verbatim>\<open>DataGrid.scrollByPage\<close> belong to the grid widget library:
  the model records the call with the amounts it receives.\<close>

definition scrollBy :: "real \<Rightarrow> real \<Rightarrow> BeakerXDataGrid \<Rightarrow> BeakerXDataGrid" where
  "scrollBy dx dy g = record_call (ScrollBy dx dy) g"

definition scrollByPage :: "direction \<Rightarrow> BeakerXDataGrid \<Rightarrow> BeakerXDataGrid" where
  "scrollByPage d g = record_call (ScrollByPage d) g"

text \<open>Modelled from the spec: \<^verbatim>\<open>BeakerXDataGrid.setFocus\<close> is missing; it sets or removes the
  focus of the grid, which \<^verbatim>\<open>grid.focused\<close> reads.\<close>

definition setFocus :: "bool \<Rightarrow> BeakerXDataGrid \<Rightarrow> BeakerXDataGrid" where
  "setFocus b g = record_call (SetFocus b) (g\<lparr>focused := b\<rparr>)"

text \<open>The signals \<^verbatim>\<open>grid.cellHovered\<close> and \<^verbatim>\<open>grid.commSignal\<close>: an emission is recorded
  with its payload; what the slots connected to a signal do is outside the dispatcher.\<close>

definition cellHovered_emit ::
  "ICellData option \<Rightarrow> MouseEvent \<Rightarrow> BeakerXDataGrid \<Rightarrow> BeakerXDataGrid" where
  "cellHovered_emit data event g = record_call (CellHoveredEmit data event) g"

definition commSignal_emit :: "message \<Rightarrow> BeakerXDataGrid \<Rightarrow> BeakerXDataGrid" where
  "commSignal_emit m g = record_call (CommSignalEmit m) g"

definition window_open :: "string \<Rightarrow> BeakerXDataGrid \<Rightarrow> BeakerXDataGrid" where
  "window_open url g = record_call (WindowOpen url) g"

text \<open>
  The listeners of a DOM node, as the DOM keeps them: \<^verbatim>\<open>addEventListener\<close> appends the pair
  of event type and callback unless the node already has it, \<^verbatim>\<open>removeEventListener\<close>
  removes the pair that has this type and this callback and does nothing when there is
  none.
\<close>

definition add_listener ::
  "string \<times> handler \<Rightarrow> (string \<times> handler) list \<Rightarrow> (string \<times> handler) list" where
  "add_listener l ls = (if l \<in> set ls then ls else ls @ [l])"

definition addEventListener ::
  "event_target \<Rightarrow> string \<Rightarrow> handler \<Rightarrow> BeakerXDataGrid \<Rightarrow> BeakerXDataGrid" where
  "addEventListener t type h g =
     record_call (AddEventListener t type h)
       (case t of
          grid_node \<Rightarrow> g\<lparr>node := add_listener (type, h) (node g)\<rparr>
        | tableDisplayView_el_node \<Rightarrow>
            g\<lparr>tableDisplayView_el := add_listener (type, h) (tableDisplayView_el g)\<rparr>)"

definition removeEventListener ::
  "event_target \<Rightarrow> string \<Rightarrow> handler \<Rightarrow> BeakerXDataGrid \<Rightarrow> BeakerXDataGrid" where
  "removeEventListener t type h g =
     record_call (RemoveEventListener t type h)
       (case t of
          grid_node \<Rightarrow> g\<lparr>node := remove1 (type, h) (node g)\<rparr>
        | tableDisplayView_el_node \<Rightarrow>
            g\<lparr>tableDisplayView_el := remove1 (type, h) (tableDisplayView_el g)\<rparr>)"

subsection \<open>Resize controller\<close>

text \<open>Modelled from the spec: \<^verbatim>\<open>DataGridResize.isResizing\<close> is missing; the resize
  controller tracks an active resize gesture.\<close>

definition isResizing :: "BeakerXDataGrid \<Rightarrow> bool" where
  "isResizing g = resizing (dataGridResize g)"

text \<open>Modelled from the spec: \<^verbatim>\<open>DataGridResize.startResizing\<close> is missing; it enters resize
  mode.\<close>

definition startResizing :: "MouseEvent \<Rightarrow> BeakerXDataGrid \<Rightarrow> BeakerXDataGrid" where
  "startResizing event g =
     record_call (StartResizing event) (g\<lparr>dataGridResize := (dataGridResize g)\<lparr>resizing := True\<rparr>\<rparr>)"

text \<open>Modelled from the spec: \<^verbatim>\<open>DataGridResize.stopResizing\<close> is missing; it finalizes the
  active resize.\<close>

definition stopResizing :: "BeakerXDataGrid \<Rightarrow> BeakerXDataGrid" where
  "stopResizing g =
     record_call StopResizing (g\<lparr>dataGridResize := (dataGridResize g)\<lparr>resizing := False\<rparr>\<rparr>)"

text \<open>Modelled from the spec: \<^verbatim>\<open>DataGridResize.setResizeMode\<close> is missing; it
  re-evaluates the resize eligibility from the pointer position, to update the cursor
  affordance, and neither starts nor ends a resize gesture.\<close>

definition setResizeMode :: "MouseEvent \<Rightarrow> BeakerXDataGrid \<Rightarrow> BeakerXDataGrid" where
  "setResizeMode event g = record_call (SetResizeMode event) g"

text \<open>Modelled from the spec: \<^verbatim>\<open>DataGridResize.setCursorStyle\<close> is missing; it sets the
  cursor style, which the model does not track.\<close>

definition setCursorStyle :: "string \<Rightarrow> BeakerXDataGrid \<Rightarrow> BeakerXDataGrid" where
  "setCursorStyle style g = record_call (SetCursorStyle style) g"

subsection \<open>Column position controller\<close>

text \<open>Modelled from the spec: \<^verbatim>\<open>ColumnPosition.isDragging\<close> is missing; the controller
  tracks the drag-in-progress state, which exists only between a start and a stop or drop.\<close>

definition isDragging :: "BeakerXDataGrid \<Rightarrow> bool" where
  "isDragging g = (draggedCellData (columnPosition g) \<noteq> None)"

text \<open>Modelled from the spec: \<^verbatim>\<open>ColumnPosition.startDragging\<close> is missing; it records the
  start of a column drag at the given header cell.\<close>

definition startDragging :: "ICellData \<Rightarrow> BeakerXDataGrid \<Rightarrow> BeakerXDataGrid" where
  "startDragging data g =
     record_call (StartDragging data)
       (g\<lparr>columnPosition := (columnPosition g)\<lparr>draggedCellData := Some data\<rparr>\<rparr>)"

text \<open>Modelled from the spec: \<^verbatim>\<open>ColumnPosition.stopDragging\<close> is missing; it cancels the
  column drag in progress and clears the drag state.\<close>

definition stopDragging :: "BeakerXDataGrid \<Rightarrow> BeakerXDataGrid" where
  "stopDragging g =
     record_call StopDragging
       (g\<lparr>columnPosition := (columnPosition g)\<lparr>draggedCellData := None, dropCellData := None\<rparr>\<rparr>)"

text \<open>Modelled from the spec: \<^verbatim>\<open>ColumnPosition.dropColumn\<close> is missing; it drops the column
  drag in progress, after which the drag state is cleared. Where the column lands is not
  modelled.\<close>

definition dropColumn :: "BeakerXDataGrid \<Rightarrow> BeakerXDataGrid" where
  "dropColumn g =
     record_call DropColumn
       (g\<lparr>columnPosition := (columnPosition g)\<lparr>draggedCellData := None, dropCellData := None\<rparr>\<rparr>)"

text \<open>Modelled from the spec: \<^verbatim>\<open>ColumnPosition.moveDraggedHeader\<close> is missing; it updates
  the position of a column drag in progress, and neither starts nor ends a drag.\<close>

definition moveDraggedHeader :: "MouseEvent \<Rightarrow> BeakerXDataGrid \<Rightarrow> BeakerXDataGrid" where
  "moveDraggedHeader event g = record_call (MoveDraggedHeader event) g"

subsection \<open>Selection manager\<close>

text \<open>Modelled from the spec: \<^verbatim>\<open>CellSelectionManager.setStartCell\<close> is missing; it sets the
  anchor (start) cell of the selection.\<close>

definition setStartCell :: "ICellData \<Rightarrow> BeakerXDataGrid \<Rightarrow> BeakerXDataGrid" where
  "setStartCell data g =
     record_call (SetStartCell data)
       (g\<lparr>cellSelectionManager := (cellSelectionManager g)\<lparr>startCellData := Some data\<rparr>\<rparr>)"

text \<open>Modelled from the spec: \<^verbatim>\<open>CellSelectionManager.setEndCell\<close> is missing; it sets the
  end cell of the selection to the cell it is given (\<open>None\<close> is \<^verbatim>\<open>null\<close>).\<close>

definition setEndCell :: "ICellData option \<Rightarrow> BeakerXDataGrid \<Rightarrow> BeakerXDataGrid" where
  "setEndCell data g =
     record_call (SetEndCell data)
       (g\<lparr>cellSelectionManager := (cellSelectionManager g)\<lparr>endCellData := data\<rparr>\<rparr>)"

text \<open>Modelled from the spec: \<^verbatim>\<open>CellSelectionManager.handleMouseUp\<close> is missing; it
  completes a selection gesture in progress. The spec does not say how the selection
  changes: the model records the call.\<close>

definition selection_handleMouseUp :: "MouseEvent \<Rightarrow> BeakerXDataGrid \<Rightarrow> BeakerXDataGrid" where
  "selection_handleMouseUp event g = record_call (SelectionHandleMouseUp event) g"

text \<open>Modelled from the spec: \<^verbatim>\<open>CellSelectionManager.handleMouseDown\<close> is missing; a
  plain body click delegates to it for the selection start. The spec does not say how the
  selection changes: the model records the call.\<close>

definition selection_handleMouseDown :: "MouseEvent \<Rightarrow> BeakerXDataGrid \<Rightarrow> BeakerXDataGrid" where
  "selection_handleMouseDown event g = record_call (SelectionHandleMouseDown event) g"

text \<open>Modelled from the spec: \<^verbatim>\<open>CellSelectionManager.handleBodyCellHover\<close> is missing; it
  updates the selection-hover affordance, which the model does not track.\<close>

definition handleBodyCellHover :: "MouseEvent \<Rightarrow> BeakerXDataGrid \<Rightarrow> BeakerXDataGrid" where
  "handleBodyCellHover event g = record_call (HandleBodyCellHover event) g"

text \<open>Modelled from the spec: \<^verbatim>\<open>CellSelectionManager.handleCellInteraction\<close> is missing;
  it is the interaction (selection extend or toggle) used for pointer clicks. The spec
  does not say how the selection changes: the model records the call.\<close>

definition handleCellInteraction :: "ICellData \<Rightarrow> BeakerXDataGrid \<Rightarrow> BeakerXDataGrid" where
  "handleCellInteraction data g = record_call (HandleCellInteraction data) g"

subsection \<open>Focus and tooltip managers\<close>

text \<open>Modelled from the spec: \<^verbatim>\<open>CellFocusManager.setFocusedCellByNavigationKey\<close> is missing;
  with a focused cell, it moves the focus to the cell that the grid's navigation rule
  gives for the key.\<close>

definition setFocusedCellByNavigationKey :: "int \<Rightarrow> BeakerXDataGrid \<Rightarrow> BeakerXDataGrid" where
  "setFocusedCellByNavigationKey code g =
     record_call (SetFocusedCellByNavigationKey code)
       (case focusedCellData (cellFocusManager g) of
          None \<Rightarrow> g
        | Some c \<Rightarrow>
            g\<lparr>cellFocusManager := (cellFocusManager g)
                 \<lparr>focusedCellData := Some (navigationRule (cellFocusManager g) code c)\<rparr>\<rparr>)"

text \<open>Modelled from the spec: \<^verbatim>\<open>CellTooltipManager.hideTooltips\<close> is missing; it hides
  the transient cell tooltips, which the model does not track.\<close>

definition hideTooltips :: "BeakerXDataGrid \<Rightarrow> BeakerXDataGrid" where
  "hideTooltips g = record_call HideTooltips g"

subsection \<open>Column manager and columns\<close>

text \<open>Modelled from the spec: \<^verbatim>\<open>ColumnManager.getColumnByPosition\<close> is missing; it looks a
  column up by position. The result refers to the column by its position; \<open>None\<close> is the
  answer when there is no such column.\<close>

definition getColumnByPosition :: "BeakerXDataGrid \<Rightarrow> position \<Rightarrow> position option" where
  "getColumnByPosition g p =
     (case columns (columnManager g) p of None \<Rightarrow> None | Some c \<Rightarrow> Some p)"

text \<open>Modelled from the spec: \<^verbatim>\<open>ColumnManager.takeColumnByCell\<close> is missing; it gives the
  column a cell belongs to, the column at the position of the cell.\<close>

definition takeColumnByCell :: "BeakerXDataGrid \<Rightarrow> ICellData \<Rightarrow> position option" where
  "takeColumnByCell g data = getColumnByPosition g (createPositionFromCell (helpers g) data)"

text \<open>Modelled from the spec: \<^verbatim>\<open>DataGridColumn.toggleSort\<close> is missing; it toggles the
  sort direction of the column, which the model does not track: the call is recorded.\<close>

definition toggleSort :: "position \<Rightarrow> BeakerXDataGrid \<Rightarrow> BeakerXDataGrid" where
  "toggleSort p g = record_call (ToggleSort p) g"

text \<open>Modelled from the spec: \<^verbatim>\<open>DataGridColumn.toggleHighlighter\<close> is missing; it
  toggles a highlighter of the column, which the model does not track: the call is
  recorded.\<close>

definition toggleHighlighter ::
  "position \<Rightarrow> HIGHLIGHTER_TYPE \<Rightarrow> BeakerXDataGrid \<Rightarrow> BeakerXDataGrid" where
  "toggleHighlighter p t g = record_call (ToggleHighlighter p t) g"

text \<open>Modelled from the spec: \<^verbatim>\<open>DataGridColumn.toggleDataBarsRenderer\<close> is missing; it
  toggles the data-bars renderer of the column, which the model does not track: the call
  is recorded.\<close>

definition toggleDataBarsRenderer :: "position \<Rightarrow> BeakerXDataGrid \<Rightarrow> BeakerXDataGrid" where
  "toggleDataBarsRenderer p g = record_call (ToggleDataBarsRenderer p) g"

text \<open>Modelled from the spec: \<^verbatim>\<open>DataGridColumn.setDataTypePrecision\<close> is missing; it sets the
  display precision of the one column.\<close>

definition setDataTypePrecision :: "position \<Rightarrow> number \<Rightarrow> BeakerXDataGrid \<Rightarrow> BeakerXDataGrid" where
  "setDataTypePrecision p n g =
     record_call (SetDataTypePrecision p n)
       (g\<lparr>columnManager := (columnManager g)
            \<lparr>columns := (columns (columnManager g))
               (p := map_option (\<lambda>c. c\<lparr>precision := n\<rparr>) (columns (columnManager g) p))\<rparr>\<rparr>)"

text \<open>Modelled from the spec: \<^verbatim>\<open>ColumnManager.setColumnsDataTypePrecission\<close> is missing; it
  sets the display precision across all columns uniformly.\<close>

definition setColumnsDataTypePrecission :: "number \<Rightarrow> BeakerXDataGrid \<Rightarrow> BeakerXDataGrid" where
  "setColumnsDataTypePrecission n g =
     record_call (SetColumnsDataTypePrecission n)
       (g\<lparr>columnManager := (columnManager g)
            \<lparr>columns := (\<lambda>p. map_option (\<lambda>c. c\<lparr>precision := n\<rparr>) (columns (columnManager g) p))\<rparr>\<rparr>)"

section \<open>EventManager\<close>

text \<open>\<^verbatim>\<open>cellHoverControl = { timerId: undefined }\<close>: \<open>None\<close> is \<^verbatim>\<open>undefined\<close>.\<close>

record cellHoverControl_object =
  timerId :: "nat option"

text \<open>
  The dispatcher: its fields \<^verbatim>\<open>_disposed\<close>, \<^verbatim>\<open>cellHoverControl\<close> (\<open>None\<close> is \<^verbatim>\<open>null\<close>) and
  \<^verbatim>\<open>grid\<close>, together with the pending timeouts of the window, each with its identifier.
\<close>

record EventManager =
  disposed :: bool
  cellHoverControl :: "cellHoverControl_object option"
  grid :: BeakerXDataGrid
  timers :: "(nat \<times> task) list"

definition COLUMN_RESIZE_AREA_WIDTH :: real where
  "COLUMN_RESIZE_AREA_WIDTH = 4"

text \<open>\<^verbatim>\<open>setTimeout\<close> and \<^verbatim>\<open>clearTimeout\<close> of the window: a timeout stays pending under a
  fresh identifier until it is cleared; clearing \<^verbatim>\<open>undefined\<close> or an identifier that is not
  pending does nothing.\<close>

definition setTimeout :: "task \<Rightarrow> EventManager \<Rightarrow> EventManager" where
  "setTimeout t this =
     this\<lparr>timers := timers this @ [(Suc (fold max (map fst (timers this)) 0), t)],
          grid := record_call (SetTimeout t) (grid this)\<rparr>"

definition clearTimeout :: "nat option \<Rightarrow> EventManager \<Rightarrow> EventManager" where
  "clearTimeout i this =
     this\<lparr>timers := (case i of None \<Rightarrow> timers this
                      | Some j \<Rightarrow> filter (\<lambda>e. fst e \<noteq> j) (timers this)),
          grid := record_call (ClearTimeout i) (grid this)\<rparr>"

definition pending :: "EventManager \<Rightarrow> nat \<Rightarrow> bool" where
  "pending this i = (i \<in> fst ` set (timers this))"

text \<open>The constructor (lines 39 to 59), given the grid and the timeouts pending in the
  window.\<close>

definition constructor :: "BeakerXDataGrid \<Rightarrow> (nat \<times> task) list \<Rightarrow> EventManager" where
  "constructor g ts =
     \<lparr>disposed = False,
      cellHoverControl = Some \<lparr>timerId = None\<rparr>,
      grid =
        addEventListener tableDisplayView_el_node ''mousedown'' handleMouseDown
          (addEventListener grid_node ''mouseout'' handleMouseLeave
            (addEventListener grid_node ''mousemove'' handleMouseMove g)),
      timers = ts\<rparr>"

text \<open>\<^verbatim>\<open>clearReferences\<close> (lines 369 to 373) defers a closure with \<^verbatim>\<open>setTimeout\<close>; it clears
  no timeout.\<close>

definition clearReferences :: "EventManager \<Rightarrow> EventManager" where
  "clearReferences this = setTimeout clear_cellHoverControl this"

text \<open>The body of the closure that \<^verbatim>\<open>clearReferences\<close> defers.\<close>

definition clearReferences_callback :: "EventManager \<Rightarrow> EventManager" where
  "clearReferences_callback this = this\<lparr>cellHoverControl := None\<rparr>"

text \<open>\<^verbatim>\<open>dispose\<close> (lines 65 to 79). The second removal on the grid node names the event type
  \<^verbatim>\<open>'mousemove'\<close> with the mouse-leave closure, as the source does.\<close>

definition dispose :: "EventManager \<Rightarrow> EventManager" where
  "dispose this =
     (if disposed this then this
      else
        let this1 = clearReferences this;
            g1 = removeEventListener grid_node ''mousemove'' handleMouseMove (grid this1);
            g2 = removeEventListener grid_node ''mousemove'' handleMouseLeave g1;
            g3 = removeEventListener tableDisplayView_el_node ''mousedown'' handleMouseDown g2
        in this1\<lparr>grid := g3, disposed := True\<rparr>)"

text \<open>\<^verbatim>\<open>isOverHeader\<close> (lines 230 to 236) and \<^verbatim>\<open>isHeaderClicked\<close> (lines 254 to 256).\<close>

definition isOverHeader :: "BeakerXDataGrid \<Rightarrow> MouseEvent \<Rightarrow> bool" where
  "isOverHeader g event =
     (let x = clientX event - left (viewport g);
          y = clientY event - top (viewport g)
      in x < bodyWidth g + real (length (getRowHeaderSections g)) \<and> y < headerHeight g)"

definition isHeaderClicked :: "BeakerXDataGrid \<Rightarrow> MouseEvent \<Rightarrow> bool" where
  "isHeaderClicked g event =
     (isOverHeader g event \<and> button event = 0 \<and> target event = canvas g)"

definition isOutsideViewport :: "BeakerXDataGrid \<Rightarrow> MouseEvent \<Rightarrow> bool" where
  "isOutsideViewport g event = isOutsideNode (helpers g) event"

definition isNodeInsideGrid :: "BeakerXDataGrid \<Rightarrow> MouseEvent \<Rightarrow> bool" where
  "isNodeInsideGrid g event = isInsideGridNode (helpers g) event"

text \<open>\<^verbatim>\<open>getRowIndex\<close> (lines 301 to 303) is
  \<^verbatim>\<open>grid.rowManager.rows[renderedRowIndex].index\<close>: outside the array the element is
  \<^verbatim>\<open>undefined\<close> and reading its property throws a \<^verbatim>\<open>TypeError\<close>.\<close>

definition getRowIndex :: "BeakerXDataGrid \<Rightarrow> int \<Rightarrow> error + int" where
  "getRowIndex g renderedRowIndex =
     (if 0 \<le> renderedRowIndex \<and> renderedRowIndex < int (length (rows (rowManager g)))
      then Inr (index (rows (rowManager g) ! nat renderedRowIndex))
      else Inl TypeError)"

text \<open>\<^verbatim>\<open>handleHeaderClick\<close> (lines 238 to 252). A column that is not there is \<^verbatim>\<open>undefined\<close>, and
  calling \<^verbatim>\<open>toggleSort\<close> on it throws a \<^verbatim>\<open>TypeError\<close>.\<close>

definition handleHeaderClick ::
  "BeakerXDataGrid \<Rightarrow> MouseEvent \<Rightarrow> BeakerXDataGrid completion" where
  "handleHeaderClick g event =
     (if \<not> isHeaderClicked g event \<or> dropCellData (columnPosition g) \<noteq> None then Normal g
      else
        case getCellData g (clientX event) (clientY event) of
          None \<Rightarrow> Normal g
        | Some data \<Rightarrow>
            (case getColumnByPosition g (createPositionFromCell (helpers g) data) of
               None \<Rightarrow> Throw TypeError g
             | Some destColumn \<Rightarrow> Normal (toggleSort destColumn g)))"

text \<open>\<^verbatim>\<open>handleBodyClick\<close> (lines 258 to 276); \<^verbatim>\<open>url && window.open(url)\<close> opens nothing for
  \<^verbatim>\<open>null\<close> and for the empty string.\<close>

definition handleBodyClick :: "BeakerXDataGrid \<Rightarrow> MouseEvent \<Rightarrow> BeakerXDataGrid" where
  "handleBodyClick g event =
     (if isOverHeader g event \<or> isDragging g then g
      else
        case getCellData g (clientX event) (clientY event) of
          None \<Rightarrow> g
        | Some cellData \<Rightarrow>
            (case hoveredCellData (cellManager g) of
               None \<Rightarrow> g
             | Some hovered \<Rightarrow>
                 if \<not> cellsEqual (helpers g) cellData hovered then g
                 else if \<not> selectAutoLinkTableLinks (store g) then g
                 else
                   (case retrieveUrl (helpers g) (cell_value hovered) of
                      None \<Rightarrow> g
                    | Some url \<Rightarrow> if url = [] then g else window_open url g)))"

text \<open>\<^verbatim>\<open>handleStartDragging\<close> (lines 278 to 291).\<close>

definition handleStartDragging :: "BeakerXDataGrid \<Rightarrow> MouseEvent \<Rightarrow> BeakerXDataGrid" where
  "handleStartDragging g event =
     (case getCellData g (clientX event) (clientY event) of
        None \<Rightarrow> g
      | Some data \<Rightarrow>
          if \<not> isHeaderClicked g event
             \<or> (region data = corner_header \<and> column data = 0)
             \<or> width data - delta data < COLUMN_RESIZE_AREA_WIDTH
          then g
          else startDragging data g)"

text \<open>\<^verbatim>\<open>onMouseUp\<close> (lines 85 to 94).\<close>

definition onMouseUp :: "BeakerXDataGrid \<Rightarrow> MouseEvent \<Rightarrow> BeakerXDataGrid completion" where
  "onMouseUp g event =
     (if isResizing g then Normal (stopResizing g)
      else
        case handleHeaderClick (selection_handleMouseUp event g) event of
          Throw e g' \<Rightarrow> Throw e g'
        | Normal g' \<Rightarrow> Normal (dropColumn (handleBodyClick g' event)))"

text \<open>\<^verbatim>\<open>onMouseHover\<close> (lines 117 to 126).\<close>

definition onMouseHover :: "BeakerXDataGrid \<Rightarrow> MouseEvent \<Rightarrow> BeakerXDataGrid" where
  "onMouseHover g event =
     (case getCellData g (clientX event) (clientY event) of
        None \<Rightarrow> g
      | Some data \<Rightarrow> handleBodyCellHover event (cellHovered_emit (Some data) event g))"

text \<open>\<^verbatim>\<open>onMouseMove\<close> (lines 96 to 115).\<close>

definition onMouseMove :: "BeakerXDataGrid \<Rightarrow> MouseEvent \<Rightarrow> BeakerXDataGrid" where
  "onMouseMove g event =
     (if isResizing g then g
      else
        let g1 = (if buttons event \<noteq> 1 then stopDragging g else g);
            g2 = (if \<not> isResizing g1 then setResizeMode event g1 else g1)
        in if isResizing g2 \<or> isOutsideViewport g2 event then g2
           else onMouseHover (moveDraggedHeader event g2) event)"

text \<open>\<^verbatim>\<open>onMouseDown\<close> (lines 128 to 145).\<close>

definition onMouseDown :: "BeakerXDataGrid \<Rightarrow> MouseEvent \<Rightarrow> BeakerXDataGrid" where
  "onMouseDown g event =
     (if buttons event \<noteq> 1 then g
      else
        let g1 = (if \<not> focused g then setFocus True g else g)
        in if \<not> isHeaderClicked g1 event \<and> shouldResizeDataGrid (dataGridResize g1) event
           then startResizing event g1
           else if isOutsideViewport g1 event then g1
           else handleStartDragging (selection_handleMouseDown event g1) event)"

text \<open>\<^verbatim>\<open>onMouseLeave\<close> (lines 147 to 160) is called with the dispatcher's own grid. Reading \<^verbatim>\<open>timerId\<close> of a
  \<^verbatim>\<open>cellHoverControl\<close> that is \<^verbatim>\<open>null\<close> throws a \<^verbatim>\<open>TypeError\<close>.\<close>

definition onMouseLeave :: "EventManager \<Rightarrow> MouseEvent \<Rightarrow> EventManager completion" where
  "onMouseLeave this event =
     (if isNodeInsideGrid (grid this) event \<or> buttons event \<noteq> 0 then Normal this
      else
        case cellHoverControl this of
          None \<Rightarrow> Throw TypeError this
        | Some control \<Rightarrow>
            let this1 = clearTimeout (timerId control) this;
                g1 = hideTooltips (grid this1);
                g2 = cellHovered_emit None event g1;
                g3 = setCursorStyle ''auto'' g2;
                g4 = stopDragging g3;
                g5 = setFocus False g4
            in Normal (this1\<lparr>grid := g5\<rparr>))"

text \<open>\<^verbatim>\<open>onMouseDoubleClick\<close> (lines 162 to 181).\<close>

definition onMouseDoubleClick ::
  "BeakerXDataGrid \<Rightarrow> MouseEvent \<Rightarrow> BeakerXDataGrid completion" where
  "onMouseDoubleClick g event =
     (if isOverHeader g event then Normal g
      else
        case getCellData g (clientX event) (clientY event) of
          None \<Rightarrow> Normal g
        | Some data \<Rightarrow>
            if cell_type data = COLUMN_TYPES_index then Normal g
            else
              (case getRowIndex g (row data) of
                 Inl e \<Rightarrow> Throw e g
               | Inr r \<Rightarrow>
                   let g1 = (if selectHasDoubleClickAction (store g)
                             then commSignal_emit (DoubleClickMessage r (column data)) g
                             else g);
                       g2 = (if selectDoubleClickTag (store g1)
                             then commSignal_emit
                                    (ActionDetailsMessage ''DOUBLE_CLICK'' r (column data)) g1
                             else g1)
                   in Normal g2))"

text \<open>\<^verbatim>\<open>onWheel\<close> (lines 185 to 209); the \<^verbatim>\<open>switch\<close> compares the delta mode with 0, 1 and 2
  and throws in its default case.\<close>

definition onWheel :: "BeakerXDataGrid \<Rightarrow> WheelEvent \<Rightarrow> BeakerXDataGrid completion" where
  "onWheel g event =
     (let dx = deltaX event; dy = deltaY event in
      if deltaMode event = 0 then Normal (scrollBy dx dy g)
      else if deltaMode event = 1 then
        Normal (scrollBy (dx * columnWidth (defaultSizes g)) (dy * rowHeight (defaultSizes g)) g)
      else if deltaMode event = 2 then
        Normal (scrollBy (dx * pageWidth g) (dy * pageHeight g) g)
      else Throw Unreachable g)"

text \<open>\<^verbatim>\<open>handleHighlighterKeyDown\<close> (lines 305 to 317): the first case of the \<^verbatim>\<open>switch\<close> that is
  equal to the code is taken.\<close>

definition handleHighlighterKeyDown ::
  "KEYBOARD_KEYS \<Rightarrow> int \<Rightarrow> position option \<Rightarrow> BeakerXDataGrid \<Rightarrow> BeakerXDataGrid" where
  "handleHighlighterKeyDown K code col g =
     (if code = KeyH K then
        (case col of None \<Rightarrow> g | Some c \<Rightarrow> toggleHighlighter c heatmap g)
      else if code = KeyU K then
        (case col of None \<Rightarrow> g | Some c \<Rightarrow> toggleHighlighter c uniqueEntries g)
      else if code = KeyB K then
        (case col of None \<Rightarrow> g | Some c \<Rightarrow> toggleDataBarsRenderer c g)
      else g)"

text \<open>\<^verbatim>\<open>handleEnterKeyDown\<close> (lines 319 to 329).\<close>

definition handleEnterKeyDown ::
  "KEYBOARD_KEYS \<Rightarrow> BeakerXDataGrid \<Rightarrow> int \<Rightarrow> bool \<Rightarrow> ICellData option \<Rightarrow> BeakerXDataGrid" where
  "handleEnterKeyDown K g code shift cellData =
     (if code \<noteq> Enter K then g
      else
        case cellData of
          None \<Rightarrow> g
        | Some c \<Rightarrow>
            let g1 = (if \<not> shift \<or> startCellData (cellSelectionManager g) = None
                      then setStartCell c g else g)
            in handleCellInteraction c g1)"

text \<open>\<^verbatim>\<open>handleNavigationKeyDown\<close> (lines 331 to 353).\<close>

definition handleNavigationKeyDown ::
  "KEYBOARD_KEYS \<Rightarrow> BeakerXDataGrid \<Rightarrow> int \<Rightarrow> KeyboardEvent \<Rightarrow> BeakerXDataGrid" where
  "handleNavigationKeyDown K g code event =
     (let navigationKeyCodes =
            [ArrowLeft K, ArrowRight K, ArrowDown K, ArrowUp K, PageUp K, PageDown K]
      in if code \<notin> set navigationKeyCodes then g
         else
           let g1 = (if focusedCellData (cellFocusManager g) \<noteq> None
                     then setFocusedCellByNavigationKey code g
                     else if code = PageDown K \<or> code = PageUp K
                     then scrollByPage (if code = PageUp K then up else down) g
                     else g)
           in if shiftKey event
              then setEndCell (focusedCellData (cellFocusManager g1)) g1
              else g1)"

text \<open>\<^verbatim>\<open>parseInt(String.fromCharCode(code))\<close>: \<^verbatim>\<open>String.fromCharCode\<close> gives the one-character
  string of the code unit \<open>code mod 65536\<close>, and \<^verbatim>\<open>parseInt\<close> of a string of one character
  is the digit when the character is one of \<^verbatim>\<open>'0'\<close> to \<^verbatim>\<open>'9'\<close> (code units 48 to 57) and
  \<^verbatim>\<open>NaN\<close> otherwise.\<close>

definition parseInt_fromCharCode :: "int \<Rightarrow> number" where
  "parseInt_fromCharCode code =
     (let u = code mod 65536 in if 48 \<le> u \<and> u \<le> 57 then Number (u - 48) else NaN)"

text \<open>\<^verbatim>\<open>handleNumKeyDown\<close> (lines 355 to 367).\<close>

definition handleNumKeyDown ::
  "KEYBOARD_KEYS \<Rightarrow> BeakerXDataGrid \<Rightarrow> int \<Rightarrow> bool \<Rightarrow> position option \<Rightarrow> BeakerXDataGrid" where
  "handleNumKeyDown K g code shift col =
     (if code < Digit0 K \<or> code > Digit9 K then g
      else
        let number = parseInt_fromCharCode code
        in if shift then
             (case col of
                Some c \<Rightarrow> setDataTypePrecision c number g
              | None \<Rightarrow> setColumnsDataTypePrecission number g)
           else setColumnsDataTypePrecission number g)"

text \<open>\<^verbatim>\<open>onKeyDown\<close> (lines 211 to 228).\<close>

definition onKeyDown :: "KEYBOARD_KEYS \<Rightarrow> BeakerXDataGrid \<Rightarrow> KeyboardEvent \<Rightarrow> BeakerXDataGrid" where
  "onKeyDown K g event =
     (let focusedCell = focusedCellData (cellFocusManager g);
          col = (case focusedCell of None \<Rightarrow> None | Some c \<Rightarrow> takeColumnByCell g c);
          code = keyCode event
      in if code = 0 then g
         else
           let g0 = record_call PreventDefault (record_call StopPropagation g);
               g1 = handleEnterKeyDown K g0 code (shiftKey event) focusedCell;
               g2 = handleHighlighterKeyDown K code col g1;
               g3 = handleNumKeyDown K g2 code (shiftKey event) col
           in handleNavigationKeyDown K g3 code event)"

section \<open>Sample inputs\<close>

text \<open>The key codes of the DOM for the keys of the table.\<close>

definition dom_keys :: KEYBOARD_KEYS where
  "dom_keys =
     \<lparr>Enter = 13, KeyH = 72, KeyU = 85, KeyB = 66, Digit0 = 48, Digit9 = 57,
      ArrowLeft = 37, ArrowRight = 39, ArrowDown = 40, ArrowUp = 38,
      PageUp = 33, PageDown = 34\<rparr>"

definition sample_cell :: ICellData where
  "sample_cell =
     \<lparr>cell_type = COLUMN_TYPES_body, region = body, row = 1, column = 1,
      width = 64, delta = 10, cell_value = ''v''\<rparr>"

definition sample_header_cell :: ICellData where
  "sample_header_cell =
     \<lparr>cell_type = COLUMN_TYPES_body, region = column_header, row = 0, column = 1,
      width = 64, delta = 10, cell_value = ''name''\<rparr>"

text \<open>A grid of two body columns and two rows, shown in reverse order, with a header of
  height 24 above the body; its canvas is the node 1. Nothing is focused, selected, dragged
  or resized, and no listener is registered.\<close>

definition sample_grid :: BeakerXDataGrid where
  "sample_grid =
     \<lparr>node = [],
      tableDisplayView_el = [],
      canvas = 1,
      viewport = \<lparr>left = 0, top = 0\<rparr>,
      bodyWidth = 300,
      getRowHeaderSections = [0],
      headerHeight = 24,
      defaultSizes = \<lparr>columnWidth = 64, rowHeight = 20\<rparr>,
      pageWidth = 400,
      pageHeight = 500,
      focused = False,
      getCellData = (\<lambda>x y. if y < 24 then Some sample_header_cell else Some sample_cell),
      helpers =
        \<lparr>isOutsideNode = (\<lambda>e. False),
         isInsideGridNode = (\<lambda>e. False),
         cellsEqual = (\<lambda>a b. row a = row b \<and> column a = column b \<and> region a = region b),
         retrieveUrl = (\<lambda>s. None),
         createPositionFromCell =
           (\<lambda>c. (if region c = row_header \<or> region c = corner_header then row_header else body,
                 column c))\<rparr>,
      store =
        \<lparr>selectHasDoubleClickAction = True,
         selectDoubleClickTag = True,
         selectAutoLinkTableLinks = False\<rparr>,
      rowManager = \<lparr>rows = [\<lparr>index = 1\<rparr>, \<lparr>index = 0\<rparr>]\<rparr>,
      dataGridResize = \<lparr>resizing = False, shouldResizeDataGrid = (\<lambda>e. clientX e = 64)\<rparr>,
      columnPosition = \<lparr>draggedCellData = None, dropCellData = None\<rparr>,
      cellSelectionManager = \<lparr>startCellData = None, endCellData = None\<rparr>,
      cellFocusManager =
        \<lparr>focusedCellData = None,
         navigationRule = (\<lambda>code c. if code = 40 then c\<lparr>row := row c + 1\<rparr> else c)\<rparr>,
      cellManager = \<lparr>hoveredCellData = None\<rparr>,
      columnManager =
        \<lparr>columns = (\<lambda>p. if p = (body, 0) \<or> p = (body, 1)
                          then Some \<lparr>precision = Number 2\<rparr> else None)\<rparr>,
      calls = []\<rparr>"

definition mouse_event :: "real \<Rightarrow> real \<Rightarrow> nat \<Rightarrow> nat \<Rightarrow> nat \<Rightarrow> MouseEvent" where
  "mouse_event x y bs b t = \<lparr>clientX = x, clientY = y, buttons = bs, button = b, target = t\<rparr>"

text \<open>The grid after a stale event: one row is left, while the spatial query still
  answers with a cell of the second rendered row.\<close>

definition stale_grid :: BeakerXDataGrid where
  "stale_grid = sample_grid\<lparr>rowManager := \<lparr>rows = [\<lparr>index = 0\<rparr>]\<rparr>\<rparr>"

text \<open>The grid with a column drag in progress.\<close>

definition dragging_grid :: BeakerXDataGrid where
  "dragging_grid =
     sample_grid\<lparr>columnPosition := \<lparr>draggedCellData = Some sample_header_cell, dropCellData = None\<rparr>\<rparr>"

text \<open>The grid with a column drag in progress and a resize gesture active.\<close>

definition resizing_while_dragging :: BeakerXDataGrid where
  "resizing_while_dragging =
     sample_grid\<lparr>dataGridResize := (dataGridResize sample_grid)\<lparr>resizing := True\<rparr>,
                 columnPosition := \<lparr>draggedCellData = Some sample_header_cell, dropCellData = None\<rparr>\<rparr>"

text \<open>The grid with the sample cell focused.\<close>

definition focused_grid :: BeakerXDataGrid where
  "focused_grid =
     sample_grid\<lparr>cellFocusManager := (cellFocusManager sample_grid)\<lparr>focusedCellData := Some sample_cell\<rparr>\<rparr>"

text \<open>A dispatcher on the sample grid whose hover control holds the identifier of a pending
  hover timeout.\<close>

definition hovering_manager :: EventManager where
  "hovering_manager =
     (constructor sample_grid [(7, hover_callback)])\<lparr>cellHoverControl := Some \<lparr>timerId = Some 7\<rparr>\<rparr>"

section \<open>Observations on a grid\<close>

text \<open>The columns whose sort was toggled, in the order of the calls.\<close>

fun sort_toggles :: "call list \<Rightarrow> position list" where
  "sort_toggles [] = []"
| "sort_toggles (ToggleSort p # cs) = p # sort_toggles cs"
| "sort_toggles (c # cs) = sort_toggles cs"

text \<open>The column of the focused cell, as \<^verbatim>\<open>onKeyDown\<close> computes it:
  \<^verbatim>\<open>focusedCell && grid.columnManager.takeColumnByCell(focusedCell)\<close>.\<close>

definition focusedColumn :: "BeakerXDataGrid \<Rightarrow> position option" where
  "focusedColumn g =
     (case focusedCellData (cellFocusManager g) of None \<Rightarrow> None | Some c \<Rightarrow> takeColumnByCell g c)"

section \<open>Frame lemmas\<close>

lemma isDragging_record_call [simp]: "isDragging (record_call c g) = isDragging g"
  by (simp add: isDragging_def record_call_def)

lemma isResizing_record_call [simp]: "isResizing (record_call c g) = isResizing g"
  by (simp add: isResizing_def record_call_def)

lemma selection_record_call [simp]:
  "cellSelectionManager (record_call c g) = cellSelectionManager g"
  by (simp add: record_call_def)

lemma focus_record_call [simp]:
  "cellFocusManager (record_call c g) = cellFocusManager g"
  by (simp add: record_call_def)

lemma columnManager_record_call [simp]:
  "columnManager (record_call c g) = columnManager g"
  by (simp add: record_call_def)

lemma sort_toggles_append: "sort_toggles (xs @ ys) = sort_toggles xs @ sort_toggles ys"
  by (induction xs rule: sort_toggles.induct) simp_all

lemma handleHighlighterKeyDown_frame:
  "cellSelectionManager (handleHighlighterKeyDown K code col g) = cellSelectionManager g"
  "cellFocusManager (handleHighlighterKeyDown K code col g) = cellFocusManager g"
  "columnManager (handleHighlighterKeyDown K code col g) = columnManager g"
  by (simp_all add: handleHighlighterKeyDown_def toggleHighlighter_def toggleDataBarsRenderer_def
        split: option.splits)

lemma handleNumKeyDown_frame:
  "cellSelectionManager (handleNumKeyDown K g code shift col) = cellSelectionManager g"
  "cellFocusManager (handleNumKeyDown K g code shift col) = cellFocusManager g"
  by (simp_all add: handleNumKeyDown_def setDataTypePrecision_def setColumnsDataTypePrecission_def
        Let_def split: option.splits)

lemma handleEnterKeyDown_other_key:
  "code \<noteq> Enter K \<Longrightarrow> handleEnterKeyDown K g code shift cellData = g"
  by (simp add: handleEnterKeyDown_def)

lemma handleEnterKeyDown_columns:
  "columnManager (handleEnterKeyDown K g code shift cellData) = columnManager g"
  by (simp add: handleEnterKeyDown_def handleCellInteraction_def setStartCell_def Let_def
        split: option.splits)

lemma handleNavigationKeyDown_columns:
  "columnManager (handleNavigationKeyDown K g code event) = columnManager g"
  by (simp add: handleNavigationKeyDown_def setFocusedCellByNavigationKey_def scrollByPage_def
        setEndCell_def Let_def split: option.splits)

section \<open>Disposal\<close>

text \<open>A second \<^verbatim>\<open>dispose\<close> changes nothing: the early return of the source.\<close>

lemma dispose_idempotent: "dispose (dispose this) = dispose this"
  by (simp add: dispose_def Let_def)

text \<open>The calls of the first \<^verbatim>\<open>dispose\<close>: the second removal names the event type
  \<^verbatim>\<open>'mousemove'\<close> for the mouse-leave listener.\<close>

lemma dispose_calls:
  "\<not> disposed this \<Longrightarrow>
   calls (grid (dispose this)) = calls (grid this) @
     [SetTimeout clear_cellHoverControl,
      RemoveEventListener grid_node ''mousemove'' handleMouseMove,
      RemoveEventListener grid_node ''mousemove'' handleMouseLeave,
      RemoveEventListener tableDisplayView_el_node ''mousedown'' handleMouseDown]"
  by (simp add: dispose_def Let_def clearReferences_def setTimeout_def removeEventListener_def
        record_call_def)

text \<open>
  Claim C1 says that the first \<^verbatim>\<open>dispose\<close> removes every listener registered at
  construction. On the sample grid the constructor registers \<^verbatim>\<open>mousemove\<close> and
  \<^verbatim>\<open>mouseout\<close> on the grid node and \<^verbatim>\<open>mousedown\<close> on the table-display element; after
  \<^verbatim>\<open>dispose\<close> the \<^verbatim>\<open>mouseout\<close> listener is still registered on the grid node, and the
  dispatcher is marked disposed.
\<close>

theorem dispose_leaves_mouseout_listener:
  "node (grid (constructor sample_grid [])) =
     [(''mousemove'', handleMouseMove), (''mouseout'', handleMouseLeave)]
   \<and> tableDisplayView_el (grid (constructor sample_grid [])) = [(''mousedown'', handleMouseDown)]
   \<and> node (grid (dispose (constructor sample_grid []))) = [(''mouseout'', handleMouseLeave)]
   \<and> tableDisplayView_el (grid (dispose (constructor sample_grid []))) = []
   \<and> disposed (dispose (constructor sample_grid []))"
  by (simp add: constructor_def dispose_def clearReferences_def setTimeout_def Let_def
        addEventListener_def removeEventListener_def add_listener_def record_call_def
        sample_grid_def)

section \<open>The hover timer\<close>

lemma pending_dispose: "pending this t \<Longrightarrow> pending (dispose this) t"
  by (auto simp add: pending_def dispose_def Let_def clearReferences_def setTimeout_def)

text \<open>
  Claim C2, as stated, says that \<^verbatim>\<open>dispose\<close> cancels a pending hover timer. It does not:
  the hover timeout 7 of the sample dispatcher is pending before \<^verbatim>\<open>dispose\<close> and pending
  after it, next to the deferred closure of \<^verbatim>\<open>clearReferences\<close>.
\<close>

theorem dispose_keeps_hover_timer:
  "cellHoverControl hovering_manager = Some \<lparr>timerId = Some 7\<rparr>
   \<and> pending hovering_manager 7
   \<and> pending (dispose hovering_manager) 7
   \<and> timers (dispose hovering_manager) = [(7, hover_callback), (8, clear_cellHoverControl)]"
  by (simp add: hovering_manager_def pending_def constructor_def dispose_def Let_def
        clearReferences_def setTimeout_def)

text \<open>
  Claim C2, amended: for every dispatcher whose hover control holds a timer,
  \<^verbatim>\<open>onMouseLeave\<close>, when the pointer is outside the grid and no button is held, cancels
  the timer; \<^verbatim>\<open>dispose\<close> does not cancel it: a timer that is pending stays pending, and
  the first \<^verbatim>\<open>dispose\<close> only adds the deferred closure that sets \<^verbatim>\<open>cellHoverControl\<close> to
  \<^verbatim>\<open>null\<close>.
\<close>

theorem hover_timer_cancelled_on_leave_only:
  assumes "cellHoverControl this = Some control" and "timerId control = Some t"
  shows "(\<not> isNodeInsideGrid (grid this) event \<and> buttons event = 0 \<longrightarrow>
           (\<exists>this'. onMouseLeave this event = Normal this' \<and> \<not> pending this' t))
       \<and> (pending this t \<longrightarrow> pending (dispose this) t)
       \<and> (\<not> disposed this \<longrightarrow>
            timers (dispose this) =
              timers this @ [(Suc (fold max (map fst (timers this)) 0), clear_cellHoverControl)])"
  using assms
  by (auto simp add: onMouseLeave_def Let_def clearTimeout_def pending_def pending_dispose
        dispose_def clearReferences_def setTimeout_def)

text \<open>Claim C2, amended, on the sample dispatcher: the hover timeout 7 is gone after the
  mouse leave and pending after \<^verbatim>\<open>dispose\<close>.\<close>

theorem hover_timer_cancelled_on_leave_only_witness:
  "cellHoverControl hovering_manager = Some \<lparr>timerId = Some 7\<rparr>
   \<and> timerId \<lparr>timerId = Some 7\<rparr> = Some 7
   \<and> \<not> isNodeInsideGrid (grid hovering_manager) (mouse_event 500 500 0 0 0)
   \<and> buttons (mouse_event 500 500 0 0 0) = 0
   \<and> pending hovering_manager 7
   \<and> \<not> disposed hovering_manager
   \<and> (\<exists>this'. onMouseLeave hovering_manager (mouse_event 500 500 0 0 0) = Normal this'
         \<and> \<not> pending this' 7)
   \<and> pending (dispose hovering_manager) 7"
proof -
  have a: "cellHoverControl hovering_manager = Some \<lparr>timerId = Some 7\<rparr>"
    by (simp add: hovering_manager_def)
  have b: "timerId \<lparr>timerId = Some 7\<rparr> = Some 7" by simp
  have c: "\<not> isNodeInsideGrid (grid hovering_manager) (mouse_event 500 500 0 0 0)"
    by (simp add: isNodeInsideGrid_def hovering_manager_def constructor_def addEventListener_def
          record_call_def sample_grid_def)
  have d: "buttons (mouse_event 500 500 0 0 0) = 0" by (simp add: mouse_event_def)
  have e: "pending hovering_manager 7"
    by (simp add: pending_def hovering_manager_def constructor_def)
  have f: "\<not> disposed hovering_manager"
    by (simp add: hovering_manager_def constructor_def)
  show ?thesis
    using a b c d e f
      hover_timer_cancelled_on_leave_only [OF a b, of "mouse_event 500 500 0 0 0"]
    by simp
qed

section \<open>Wheel\<close>

text \<open>
  Claim C3: \<^verbatim>\<open>onWheel\<close> converts the delta pair to pixels by the delta mode (mode 0
  passes the pair through, mode 1 multiplies by the default column width and row height,
  mode 2 by the page width and page height) and scrolls by exactly that amount with one
  call of \<^verbatim>\<open>scrollBy\<close>; any other mode throws \<^verbatim>\<open>'unreachable'\<close> and leaves the grid as it
  was, so that no scroll is performed.
\<close>

theorem onWheel_pixels:
  "(deltaMode event = 0 \<longrightarrow>
      onWheel g event = Normal (g\<lparr>calls := calls g @ [ScrollBy (deltaX event) (deltaY event)]\<rparr>))
   \<and> (deltaMode event = 1 \<longrightarrow>
      onWheel g event =
        Normal (g\<lparr>calls := calls g @
          [ScrollBy (deltaX event * columnWidth (defaultSizes g))
                    (deltaY event * rowHeight (defaultSizes g))]\<rparr>))
   \<and> (deltaMode event = 2 \<longrightarrow>
      onWheel g event =
        Normal (g\<lparr>calls := calls g @
          [ScrollBy (deltaX event * pageWidth g) (deltaY event * pageHeight g)]\<rparr>))
   \<and> (2 < deltaMode event \<longrightarrow> onWheel g event = Throw Unreachable g)"
  by (simp add: onWheel_def scrollBy_def record_call_def Let_def)

text \<open>Claim C3 on the sample grid, whose default row height is 20 and whose page height is
  500: mode 0 passes the pair through, mode 1 with \<open>deltaY = 2\<close> scrolls by \<open>dy = 40\<close>, mode 2 with \<open>deltaY = 1\<close> scrolls by
  500, and mode 3 throws.\<close>

theorem onWheel_pixels_witness:
  "deltaMode \<lparr>deltaX = 3, deltaY = 7, deltaMode = 0\<rparr> = 0
   \<and> onWheel sample_grid \<lparr>deltaX = 3, deltaY = 7, deltaMode = 0\<rparr> =
       Normal (sample_grid\<lparr>calls := [ScrollBy 3 7]\<rparr>)
   \<and> deltaMode \<lparr>deltaX = 0, deltaY = 2, deltaMode = 1\<rparr> = 1
   \<and> rowHeight (defaultSizes sample_grid) = 20
   \<and> onWheel sample_grid \<lparr>deltaX = 0, deltaY = 2, deltaMode = 1\<rparr> =
       Normal (sample_grid\<lparr>calls := [ScrollBy 0 40]\<rparr>)
   \<and> deltaMode \<lparr>deltaX = 0, deltaY = 1, deltaMode = 2\<rparr> = 2
   \<and> pageHeight sample_grid = 500
   \<and> onWheel sample_grid \<lparr>deltaX = 0, deltaY = 1, deltaMode = 2\<rparr> =
       Normal (sample_grid\<lparr>calls := [ScrollBy 0 500]\<rparr>)
   \<and> onWheel sample_grid \<lparr>deltaX = 0, deltaY = 1, deltaMode = 3\<rparr> = Throw Unreachable sample_grid"
  using onWheel_pixels [of "\<lparr>deltaX = 3, deltaY = 7, deltaMode = 0\<rparr>" sample_grid]
        onWheel_pixels [of "\<lparr>deltaX = 0, deltaY = 2, deltaMode = 1\<rparr>" sample_grid]
        onWheel_pixels [of "\<lparr>deltaX = 0, deltaY = 1, deltaMode = 2\<rparr>" sample_grid]
        onWheel_pixels [of "\<lparr>deltaX = 0, deltaY = 1, deltaMode = 3\<rparr>" sample_grid]
  by (simp add: sample_grid_def)

section \<open>Mouse move and mouse down\<close>

lemma isDragging_onMouseHover: "isDragging (onMouseHover g event) = isDragging g"
  by (simp add: onMouseHover_def handleBodyCellHover_def cellHovered_emit_def split: option.splits)

lemma calls_onMouseHover: "\<exists>cs. calls (onMouseHover g event) = calls g @ cs"
  by (simp add: onMouseHover_def handleBodyCellHover_def cellHovered_emit_def record_call_def
        split: option.splits)

text \<open>A primary press on a header cell starts a column drag; a second primary press near
  a column boundary, on a node other than the canvas, starts a resize while the drag is
  still in progress.\<close>

lemma resizing_while_dragging_reachable:
  "isResizing (onMouseDown (onMouseDown sample_grid (mouse_event 70 10 1 0 1))
                 (mouse_event 64 10 1 0 2))
   \<and> isDragging (onMouseDown (onMouseDown sample_grid (mouse_event 70 10 1 0 1))
                   (mouse_event 64 10 1 0 2))"
  by (simp add: onMouseDown_def sample_grid_def mouse_event_def setFocus_def record_call_def
        isHeaderClicked_def isOverHeader_def isOutsideViewport_def selection_handleMouseDown_def
        handleStartDragging_def sample_header_cell_def COLUMN_RESIZE_AREA_WIDTH_def startDragging_def
        startResizing_def isResizing_def isDragging_def Let_def)

text \<open>
  Claim C4, as stated, says that after every mouse move whose \<open>buttons\<close> is not 1 no column
  drag is in progress. While a resize is active \<^verbatim>\<open>onMouseMove\<close> returns at once: with a
  drag in progress and a resize active, a move with \<open>buttons = 0\<close> leaves the grid as it
  was, the drag still in progress.
\<close>

theorem onMouseMove_resizing_keeps_drag:
  "buttons (mouse_event 70 10 0 0 1) \<noteq> 1
   \<and> isDragging resizing_while_dragging
   \<and> onMouseMove resizing_while_dragging (mouse_event 70 10 0 0 1) = resizing_while_dragging
   \<and> isDragging (onMouseMove resizing_while_dragging (mouse_event 70 10 0 0 1))"
  by (simp add: onMouseMove_def isResizing_def isDragging_def resizing_while_dragging_def
        mouse_event_def)

text \<open>
  Claim C4, amended: for every mouse move whose \<open>buttons\<close> is not 1 that arrives while no
  resize is active, \<^verbatim>\<open>onMouseMove\<close> first calls \<^verbatim>\<open>stopDragging\<close> of the column-position
  controller, and when it completes no column drag is in progress.
\<close>

theorem onMouseMove_cancels_drag:
  "buttons event \<noteq> 1 \<Longrightarrow> \<not> isResizing g \<Longrightarrow>
   \<not> isDragging (onMouseMove g event)
   \<and> (\<exists>cs. calls (onMouseMove g event) = calls g @ StopDragging # cs)"
proof -
  assume b: "buttons event \<noteq> 1" and r: "\<not> isResizing g"
  define g2 where "g2 = setResizeMode event (stopDragging g)"
  have nd: "\<not> isDragging g2"
    by (simp add: g2_def setResizeMode_def stopDragging_def isDragging_def record_call_def)
  have c2: "calls g2 = calls g @ [StopDragging, SetResizeMode event]"
    by (simp add: g2_def setResizeMode_def stopDragging_def record_call_def)
  have r2: "\<not> isResizing g2"
    using r by (simp add: g2_def setResizeMode_def stopDragging_def isResizing_def record_call_def)
  have r1: "\<not> isResizing (stopDragging g)"
    using r by (simp add: stopDragging_def isResizing_def record_call_def)
  have m: "onMouseMove g event =
             (if isOutsideViewport g2 event then g2
              else onMouseHover (moveDraggedHeader event g2) event)"
    using b r r1 r2 by (simp add: onMouseMove_def Let_def g2_def)
  show ?thesis
  proof (cases "isOutsideViewport g2 event")
    case True
    with m nd c2 show ?thesis by simp
  next
    case False
    obtain cs where cs: "calls (onMouseHover (moveDraggedHeader event g2) event)
                          = calls (moveDraggedHeader event g2) @ cs"
      using calls_onMouseHover by blast
    have "\<not> isDragging (onMouseHover (moveDraggedHeader event g2) event)"
      using nd by (simp add: isDragging_onMouseHover moveDraggedHeader_def)
    moreover have "calls (onMouseHover (moveDraggedHeader event g2) event)
                    = calls g @ StopDragging # (SetResizeMode event # MoveDraggedHeader event # cs)"
      using cs c2 by (simp add: moveDraggedHeader_def record_call_def)
    ultimately show ?thesis using m False by auto
  qed
qed

text \<open>Claim C4, amended, on the sample grid with a drag in progress and no resize: a move
  with \<open>buttons = 0\<close> makes the drag state inactive.\<close>

theorem onMouseMove_cancels_drag_witness:
  "buttons (mouse_event 70 10 0 0 1) \<noteq> 1
   \<and> \<not> isResizing dragging_grid
   \<and> isDragging dragging_grid
   \<and> \<not> isDragging (onMouseMove dragging_grid (mouse_event 70 10 0 0 1))
   \<and> (\<exists>cs. calls (onMouseMove dragging_grid (mouse_event 70 10 0 0 1))
            = calls dragging_grid @ StopDragging # cs)"
proof -
  have a: "buttons (mouse_event 70 10 0 0 1) \<noteq> 1" by (simp add: mouse_event_def)
  have b: "\<not> isResizing dragging_grid"
    by (simp add: isResizing_def dragging_grid_def sample_grid_def)
  have c: "isDragging dragging_grid"
    by (simp add: isDragging_def dragging_grid_def)
  show ?thesis
    using a b c onMouseMove_cancels_drag [OF a b] by simp
qed

text \<open>
  Claim C10: for every mouse-down event whose \<open>buttons\<close> is not 1, \<^verbatim>\<open>onMouseDown\<close> returns
  the grid as it was: no call is made (no focus change, no resize start, no selection
  start, no column-drag start) and the state of every controller is unchanged.
\<close>

theorem onMouseDown_other_buttons:
  "buttons event \<noteq> 1 \<Longrightarrow> onMouseDown g event = g"
  by (simp add: onMouseDown_def)

text \<open>Claim C10 on the sample grid, for a press of the secondary button alone.\<close>

theorem onMouseDown_other_buttons_witness:
  "buttons (mouse_event 10 40 2 2 1) \<noteq> 1
   \<and> onMouseDown sample_grid (mouse_event 10 40 2 2 1) = sample_grid"
  using onMouseDown_other_buttons [of "mouse_event 10 40 2 2 1" sample_grid]
  by (simp add: mouse_event_def)

section \<open>Mouse up on a header\<close>

lemma handleHeaderClick_no_toggle:
  "\<not> isHeaderClicked g event \<Longrightarrow> handleHeaderClick g event = Normal g"
  by (simp add: handleHeaderClick_def)

lemma handleBodyClick_sort_toggles:
  "sort_toggles (calls (handleBodyClick g event)) = sort_toggles (calls g)"
  by (simp add: handleBodyClick_def window_open_def record_call_def sort_toggles_append
           split: option.splits)

text \<open>A release of the primary button over the header of the sample grid, on the canvas,
  toggles the sort of the column under the pointer.\<close>

lemma onMouseUp_header_click_toggles:
  "onMouseUp sample_grid (mouse_event 70 10 0 0 1) =
     Normal (sample_grid\<lparr>calls := [SelectionHandleMouseUp (mouse_event 70 10 0 0 1),
                                    ToggleSort (body, 1), DropColumn]\<rparr>)"
  by (simp add: onMouseUp_def isResizing_def sample_grid_def selection_handleMouseUp_def
        record_call_def handleHeaderClick_def isHeaderClicked_def isOverHeader_def mouse_event_def
        getColumnByPosition_def sample_header_cell_def toggleSort_def handleBodyClick_def
        dropColumn_def)

text \<open>
  Claim C5: a sort toggle on mouse-up fires only when the pointer is over the header, the
  event's button is the primary button and the event's target is the grid's canvas: for
  every mouse-up event where one of the three fails, \<^verbatim>\<open>onMouseUp\<close> toggles no sort (the
  sort toggles among the recorded calls are those from before the event).
\<close>

theorem onMouseUp_sort_toggle_only_on_header_click:
  "\<not> (isOverHeader g event \<and> button event = 0 \<and> target event = canvas g) \<Longrightarrow>
   sort_toggles (calls (state_of (onMouseUp g event))) = sort_toggles (calls g)"
proof -
  assume "\<not> (isOverHeader g event \<and> button event = 0 \<and> target event = canvas g)"
  then have nh: "\<not> isHeaderClicked (selection_handleMouseUp event g) event"
    by (simp add: isHeaderClicked_def isOverHeader_def selection_handleMouseUp_def record_call_def)
  show ?thesis
  proof (cases "isResizing g")
    case True
    then show ?thesis
      by (simp add: onMouseUp_def stopResizing_def record_call_def sort_toggles_append)
  next
    case False
    then show ?thesis
      using handleHeaderClick_no_toggle [OF nh]
      by (simp add: onMouseUp_def dropColumn_def record_call_def sort_toggles_append
            handleBodyClick_sort_toggles selection_handleMouseUp_def)
  qed
qed

text \<open>Claim C5 on the sample grid: a release of the primary button over the header whose
  target is the node 2, not the canvas, toggles no sort.\<close>

theorem onMouseUp_sort_toggle_only_on_header_click_witness:
  "\<not> (isOverHeader sample_grid (mouse_event 70 10 0 0 2)
       \<and> button (mouse_event 70 10 0 0 2) = 0
       \<and> target (mouse_event 70 10 0 0 2) = canvas sample_grid)
   \<and> isOverHeader sample_grid (mouse_event 70 10 0 0 2)
   \<and> sort_toggles (calls (state_of (onMouseUp sample_grid (mouse_event 70 10 0 0 2)))) = []"
  using onMouseUp_sort_toggle_only_on_header_click [of sample_grid "mouse_event 70 10 0 0 2"]
  by (simp add: sample_grid_def mouse_event_def isOverHeader_def)

section \<open>Double click\<close>

text \<open>
  Claim C9: \<^verbatim>\<open>onMouseDoubleClick\<close> resolves the row by indexing the rows of the row manager
  without a bounds check. For every double click over a cell that is outside the header
  and not of the index column, whose rendered row index is outside the rows, the lookup
  fails and the handler throws a \<^verbatim>\<open>TypeError\<close>; no guard turns the event into a no-op.
\<close>

theorem onMouseDoubleClick_row_out_of_range:
  "\<not> isOverHeader g event \<Longrightarrow>
   getCellData g (clientX event) (clientY event) = Some data \<Longrightarrow>
   cell_type data \<noteq> COLUMN_TYPES_index \<Longrightarrow>
   row data < 0 \<or> int (length (rows (rowManager g))) \<le> row data \<Longrightarrow>
   getRowIndex g (row data) = Inl TypeError \<and> onMouseDoubleClick g event = Throw TypeError g"
  by (auto simp add: onMouseDoubleClick_def getRowIndex_def)

text \<open>Claim C9 on the stale grid: the cell under the pointer is in the rendered row 1 and
  the rows have one element.\<close>

theorem onMouseDoubleClick_row_out_of_range_witness:
  "\<not> isOverHeader stale_grid (mouse_event 70 50 0 0 1)
   \<and> getCellData stale_grid (clientX (mouse_event 70 50 0 0 1)) (clientY (mouse_event 70 50 0 0 1))
       = Some sample_cell
   \<and> cell_type sample_cell \<noteq> COLUMN_TYPES_index
   \<and> (row sample_cell < 0 \<or> int (length (rows (rowManager stale_grid))) \<le> row sample_cell)
   \<and> getRowIndex stale_grid (row sample_cell) = Inl TypeError
   \<and> onMouseDoubleClick stale_grid (mouse_event 70 50 0 0 1) = Throw TypeError stale_grid"
proof -
  have a: "\<not> isOverHeader stale_grid (mouse_event 70 50 0 0 1)"
    by (simp add: isOverHeader_def stale_grid_def sample_grid_def mouse_event_def)
  have b: "getCellData stale_grid (clientX (mouse_event 70 50 0 0 1))
             (clientY (mouse_event 70 50 0 0 1)) = Some sample_cell"
    by (simp add: stale_grid_def sample_grid_def mouse_event_def)
  have c: "cell_type sample_cell \<noteq> COLUMN_TYPES_index"
    by (simp add: sample_cell_def)
  have d: "row sample_cell < 0 \<or> int (length (rows (rowManager stale_grid))) \<le> row sample_cell"
    by (simp add: stale_grid_def sample_grid_def sample_cell_def)
  show ?thesis
    using a b c d onMouseDoubleClick_row_out_of_range [OF a b c d] by simp
qed

text \<open>
  Claim C6, as stated, says that every double click over a cell outside the header and
  not of the index column, with both feature flags enabled, emits two messages. On the
  stale grid such a double click throws at the row lookup and emits nothing: the recorded
  calls are those from before the event.
\<close>

theorem onMouseDoubleClick_stale_row_emits_nothing:
  "\<not> isOverHeader stale_grid (mouse_event 70 50 0 0 1)
   \<and> getCellData stale_grid 70 50 = Some sample_cell
   \<and> cell_type sample_cell \<noteq> COLUMN_TYPES_index
   \<and> selectHasDoubleClickAction (store stale_grid)
   \<and> selectDoubleClickTag (store stale_grid)
   \<and> onMouseDoubleClick stale_grid (mouse_event 70 50 0 0 1) = Throw TypeError stale_grid
   \<and> calls (state_of (onMouseDoubleClick stale_grid (mouse_event 70 50 0 0 1))) = calls stale_grid"
  by (simp add: isOverHeader_def stale_grid_def sample_grid_def mouse_event_def sample_cell_def
        onMouseDoubleClick_def getRowIndex_def)

text \<open>
  Claim C6, amended: for every double click over a cell outside the header and not of the
  index column, whose rendered row index is within the rows of the row manager, when both
  feature flags are enabled, \<^verbatim>\<open>onMouseDoubleClick\<close> emits exactly two messages, in this
  order: the double-click message, then the action-detail message tagged
  \<^verbatim>\<open>DOUBLE_CLICK\<close>, both with the logical index of that row and the column of the cell.
\<close>

theorem onMouseDoubleClick_two_messages:
  "\<not> isOverHeader g event \<Longrightarrow>
   getCellData g (clientX event) (clientY event) = Some data \<Longrightarrow>
   cell_type data \<noteq> COLUMN_TYPES_index \<Longrightarrow>
   selectHasDoubleClickAction (store g) \<Longrightarrow>
   selectDoubleClickTag (store g) \<Longrightarrow>
   0 \<le> row data \<Longrightarrow> row data < int (length (rows (rowManager g))) \<Longrightarrow>
   onMouseDoubleClick g event =
     Normal (g\<lparr>calls := calls g @
       [CommSignalEmit (DoubleClickMessage (index (rows (rowManager g) ! nat (row data))) (column data)),
        CommSignalEmit (ActionDetailsMessage ''DOUBLE_CLICK''
                          (index (rows (rowManager g) ! nat (row data))) (column data))]\<rparr>)"
  by (simp add: onMouseDoubleClick_def getRowIndex_def commSignal_emit_def record_call_def)

text \<open>Claim C6, amended, on the sample grid: the cell is in the rendered row 1, whose
  logical index is 0, and in the column 1.\<close>

theorem onMouseDoubleClick_two_messages_witness:
  "\<not> isOverHeader sample_grid (mouse_event 70 50 0 0 1)
   \<and> getCellData sample_grid (clientX (mouse_event 70 50 0 0 1)) (clientY (mouse_event 70 50 0 0 1))
       = Some sample_cell
   \<and> cell_type sample_cell \<noteq> COLUMN_TYPES_index
   \<and> selectHasDoubleClickAction (store sample_grid)
   \<and> selectDoubleClickTag (store sample_grid)
   \<and> 0 \<le> row sample_cell \<and> row sample_cell < int (length (rows (rowManager sample_grid)))
   \<and> onMouseDoubleClick sample_grid (mouse_event 70 50 0 0 1) =
       Normal (sample_grid\<lparr>calls :=
         [CommSignalEmit (DoubleClickMessage 0 1),
          CommSignalEmit (ActionDetailsMessage ''DOUBLE_CLICK'' 0 1)]\<rparr>)"
proof -
  have a: "\<not> isOverHeader sample_grid (mouse_event 70 50 0 0 1)"
    by (simp add: isOverHeader_def sample_grid_def mouse_event_def)
  have b: "getCellData sample_grid (clientX (mouse_event 70 50 0 0 1))
             (clientY (mouse_event 70 50 0 0 1)) = Some sample_cell"
    by (simp add: sample_grid_def mouse_event_def)
  have c: "cell_type sample_cell \<noteq> COLUMN_TYPES_index"
    by (simp add: sample_cell_def)
  have d: "selectHasDoubleClickAction (store sample_grid)"
    by (simp add: sample_grid_def)
  have e: "selectDoubleClickTag (store sample_grid)"
    by (simp add: sample_grid_def)
  have f: "0 \<le> row sample_cell" by (simp add: sample_cell_def)
  have h: "row sample_cell < int (length (rows (rowManager sample_grid)))"
    by (simp add: sample_grid_def sample_cell_def)
  have i: "index (rows (rowManager sample_grid) ! nat (row sample_cell)) = 0"
    by (simp add: sample_grid_def sample_cell_def)
  have j: "column sample_cell = 1" "calls sample_grid = []"
    by (simp_all add: sample_cell_def sample_grid_def)
  show ?thesis
    using a b c d e f h onMouseDoubleClick_two_messages [OF a b c d e f h]
    by (simp add: i j)
qed

section \<open>Keyboard\<close>

lemma handleNavigationKeyDown_shift:
  "code \<in> set [ArrowLeft K, ArrowRight K, ArrowDown K, ArrowUp K] \<Longrightarrow>
   shiftKey event \<Longrightarrow>
   focusedCellData (cellFocusManager g) = Some c \<Longrightarrow>
   cellSelectionManager (handleNavigationKeyDown K g code event) =
     (cellSelectionManager g)\<lparr>endCellData := Some (navigationRule (cellFocusManager g) code c)\<rparr>
   \<and> focusedCellData (cellFocusManager (handleNavigationKeyDown K g code event)) =
       Some (navigationRule (cellFocusManager g) code c)"
  by (auto simp add: handleNavigationKeyDown_def setFocusedCellByNavigationKey_def setEndCell_def
        Let_def)

text \<open>
  Claim C7: for every key-down of a shift-held arrow key with a focused cell and no
  selection anchor, \<^verbatim>\<open>onKeyDown\<close> leaves the anchor unset and sets the end cell of the
  selection to the newly focused cell, the one the focus navigation computes from the
  focused cell. The key table is a parameter: the code of the arrow key is taken to be
  non-zero and different from the code of Enter.
\<close>

theorem onKeyDown_shift_arrow:
  assumes "keyCode event \<in> set [ArrowLeft K, ArrowRight K, ArrowDown K, ArrowUp K]"
    and "keyCode event \<noteq> 0"
    and "keyCode event \<noteq> Enter K"
    and "shiftKey event"
    and "focusedCellData (cellFocusManager g) = Some c"
    and "startCellData (cellSelectionManager g) = None"
  shows "startCellData (cellSelectionManager (onKeyDown K g event)) = None
    \<and> endCellData (cellSelectionManager (onKeyDown K g event)) =
        Some (navigationRule (cellFocusManager g) (keyCode event) c)
    \<and> focusedCellData (cellFocusManager (onKeyDown K g event)) =
        Some (navigationRule (cellFocusManager g) (keyCode event) c)"
proof -
  define col where "col = takeColumnByCell g c"
  define g0 where "g0 = record_call PreventDefault (record_call StopPropagation g)"
  define g3 where
    "g3 = handleNumKeyDown K (handleHighlighterKeyDown K (keyCode event) col g0)
            (keyCode event) (shiftKey event) col"
  have k: "onKeyDown K g event = handleNavigationKeyDown K g3 (keyCode event) event"
    using assms(2,3,5)
    by (simp add: onKeyDown_def Let_def g3_def g0_def col_def handleEnterKeyDown_other_key)
  have s3: "cellSelectionManager g3 = cellSelectionManager g"
    by (simp add: g3_def g0_def handleNumKeyDown_frame handleHighlighterKeyDown_frame)
  have f3: "cellFocusManager g3 = cellFocusManager g"
    by (simp add: g3_def g0_def handleNumKeyDown_frame handleHighlighterKeyDown_frame)
  have f: "focusedCellData (cellFocusManager g3) = Some c"
    using assms(5) by (simp add: f3)
  show ?thesis
    using handleNavigationKeyDown_shift [OF assms(1) assms(4) f] assms(6)
    by (simp add: k s3 f3)
qed

text \<open>Claim C7 on the sample grid with the sample cell focused, for Shift+ArrowDown under
  the key codes of the DOM: the anchor stays unset and the end of the selection is the cell
  one row below.\<close>

theorem onKeyDown_shift_arrow_witness:
  "keyCode \<lparr>keyCode = 40, shiftKey = True\<rparr>
     \<in> set [ArrowLeft dom_keys, ArrowRight dom_keys, ArrowDown dom_keys, ArrowUp dom_keys]
   \<and> keyCode \<lparr>keyCode = 40, shiftKey = True\<rparr> \<noteq> 0
   \<and> keyCode \<lparr>keyCode = 40, shiftKey = True\<rparr> \<noteq> Enter dom_keys
   \<and> shiftKey \<lparr>keyCode = 40, shiftKey = True\<rparr>
   \<and> focusedCellData (cellFocusManager focused_grid) = Some sample_cell
   \<and> startCellData (cellSelectionManager focused_grid) = None
   \<and> startCellData (cellSelectionManager
        (onKeyDown dom_keys focused_grid \<lparr>keyCode = 40, shiftKey = True\<rparr>)) = None
   \<and> endCellData (cellSelectionManager
        (onKeyDown dom_keys focused_grid \<lparr>keyCode = 40, shiftKey = True\<rparr>))
       = Some (sample_cell\<lparr>row := 2\<rparr>)"
proof -
  let ?e = "\<lparr>keyCode = 40, shiftKey = True\<rparr>"
  have a: "keyCode ?e \<in> set [ArrowLeft dom_keys, ArrowRight dom_keys, ArrowDown dom_keys, ArrowUp dom_keys]"
    by (simp add: dom_keys_def)
  have b: "keyCode ?e \<noteq> 0" by simp
  have c: "keyCode ?e \<noteq> Enter dom_keys" by (simp add: dom_keys_def)
  have d: "shiftKey ?e" by simp
  have e: "focusedCellData (cellFocusManager focused_grid) = Some sample_cell"
    by (simp add: focused_grid_def)
  have f: "startCellData (cellSelectionManager focused_grid) = None"
    by (simp add: focused_grid_def sample_grid_def)
  have n: "navigationRule (cellFocusManager focused_grid) 40 sample_cell
             = sample_cell\<lparr>row := 2\<rparr>"
    by (simp add: focused_grid_def sample_grid_def sample_cell_def)
  show ?thesis
    using a b c d e f onKeyDown_shift_arrow [OF a b c d e f] by (simp add: n)
qed

lemma focusedColumn_Some:
  "focusedColumn g = Some p \<Longrightarrow> \<exists>c. columns (columnManager g) p = Some c"
  by (auto simp add: focusedColumn_def takeColumnByCell_def getColumnByPosition_def
        split: option.splits)

lemma parseInt_fromCharCode_digit:
  "0 \<le> d \<Longrightarrow> d \<le> 9 \<Longrightarrow> parseInt_fromCharCode (48 + d) = Number d"
  by (simp add: parseInt_fromCharCode_def Let_def)

lemma onKeyDown_digit_columns:
  assumes "Digit0 K = 48" and "Digit9 K = 57" and "0 \<le> d" and "d \<le> 9"
    and "keyCode event = 48 + d"
  shows "columnManager (onKeyDown K g event) =
     columnManager
       (if shiftKey event then
          (case focusedColumn g of
             Some p \<Rightarrow> setDataTypePrecision p (Number d) g
           | None \<Rightarrow> setColumnsDataTypePrecission (Number d) g)
        else setColumnsDataTypePrecission (Number d) g)"
proof -
  have nz: "keyCode event \<noteq> 0" using assms by simp
  have rng: "\<not> (keyCode event < Digit0 K \<or> keyCode event > Digit9 K)" using assms by simp
  have p: "parseInt_fromCharCode (keyCode event) = Number d"
    using assms parseInt_fromCharCode_digit by simp
  show ?thesis
    using nz rng
    by (simp add: onKeyDown_def Let_def handleNavigationKeyDown_columns handleNumKeyDown_def p
          focusedColumn_def setDataTypePrecision_def setColumnsDataTypePrecission_def
          handleHighlighterKeyDown_frame handleEnterKeyDown_columns
          split: option.splits)
qed

text \<open>
  Claim C8, as stated, says that with shift held the precision is set on the focused
  column only. With shift held and no focused cell, the digit key 3 sets the precision of
  both columns of the sample grid, from 2 to 3.
\<close>

theorem onKeyDown_shift_digit_without_focus:
  "shiftKey \<lparr>keyCode = 51, shiftKey = True\<rparr>
   \<and> focusedCellData (cellFocusManager sample_grid) = None
   \<and> columns (columnManager sample_grid) (body, 0) = Some \<lparr>precision = Number 2\<rparr>
   \<and> columns (columnManager sample_grid) (body, 1) = Some \<lparr>precision = Number 2\<rparr>
   \<and> columns (columnManager (onKeyDown dom_keys sample_grid \<lparr>keyCode = 51, shiftKey = True\<rparr>)) (body, 0)
       = Some \<lparr>precision = Number 3\<rparr>
   \<and> columns (columnManager (onKeyDown dom_keys sample_grid \<lparr>keyCode = 51, shiftKey = True\<rparr>)) (body, 1)
       = Some \<lparr>precision = Number 3\<rparr>"
  by (simp add: sample_grid_def dom_keys_def onKeyDown_def Let_def  handleNavigationKeyDown_def
      handleNumKeyDown_def handleHighlighterKeyDown_def handleEnterKeyDown_def
      parseInt_fromCharCode_def setColumnsDataTypePrecission_def record_call_def)

text \<open>
  Claim C8, amended: for every key-down of a digit key \<open>d\<close> from 0 to 9 (the key code
  \<open>48 + d\<close>, the table holding 48 for \<open>Digit0\<close> and 57 for \<open>Digit9\<close>), the display
  precision is set to \<open>d\<close>: if shift is held and the focused cell has a column, on that
  column only, and no other column changes; otherwise (shift not held, or no focused
  column) across all columns uniformly.
\<close>

theorem onKeyDown_digit_precision:
  assumes "Digit0 K = 48" and "Digit9 K = 57" and "0 \<le> d" and "d \<le> 9"
    and "keyCode event = 48 + d"
  shows "(shiftKey event \<and> focusedColumn g = Some p \<longrightarrow>
            (\<exists>c. columns (columnManager g) p = Some c
               \<and> columns (columnManager (onKeyDown K g event)) p = Some (c\<lparr>precision := Number d\<rparr>))
            \<and> (\<forall>q. q \<noteq> p \<longrightarrow>
                 columns (columnManager (onKeyDown K g event)) q = columns (columnManager g) q))
       \<and> (\<not> (shiftKey event \<and> focusedColumn g \<noteq> None) \<longrightarrow>
            (\<forall>q. columns (columnManager (onKeyDown K g event)) q =
                 map_option (\<lambda>c. c\<lparr>precision := Number d\<rparr>) (columns (columnManager g) q)))"
proof -
  note cm = onKeyDown_digit_columns [OF assms, of g]
  have single:
    "shiftKey event \<and> focusedColumn g = Some p \<longrightarrow>
       (\<exists>c. columns (columnManager g) p = Some c
          \<and> columns (columnManager (onKeyDown K g event)) p = Some (c\<lparr>precision := Number d\<rparr>))
       \<and> (\<forall>q. q \<noteq> p \<longrightarrow>
            columns (columnManager (onKeyDown K g event)) q = columns (columnManager g) q)"
  proof
    assume h: "shiftKey event \<and> focusedColumn g = Some p"
    then obtain c where c: "columns (columnManager g) p = Some c"
      using focusedColumn_Some by blast
    show "(\<exists>c. columns (columnManager g) p = Some c
             \<and> columns (columnManager (onKeyDown K g event)) p = Some (c\<lparr>precision := Number d\<rparr>))
          \<and> (\<forall>q. q \<noteq> p \<longrightarrow>
               columns (columnManager (onKeyDown K g event)) q = columns (columnManager g) q)"
      using h c by (simp add: cm setDataTypePrecision_def)
  qed
  have uniform:
    "\<not> (shiftKey event \<and> focusedColumn g \<noteq> None) \<longrightarrow>
       (\<forall>q. columns (columnManager (onKeyDown K g event)) q =
            map_option (\<lambda>c. c\<lparr>precision := Number d\<rparr>) (columns (columnManager g) q))"
  proof (cases "focusedColumn g")
    case None
    then show ?thesis by (simp add: cm setColumnsDataTypePrecission_def)
  next
    case (Some p')
    then show ?thesis by (simp add: cm setColumnsDataTypePrecission_def)
  qed
  show ?thesis
    using single uniform by (rule conjI)
qed

text \<open>Claim C8, amended, on the sample grid with the sample cell focused: Shift+3 sets
  the precision of the column 1 alone, and 3 without shift sets it on both columns.\<close>

theorem onKeyDown_digit_precision_witness:
  "Digit0 dom_keys = 48 \<and> Digit9 dom_keys = 57 \<and> (0::int) \<le> 3 \<and> (3::int) \<le> 9
   \<and> keyCode \<lparr>keyCode = 51, shiftKey = True\<rparr> = 48 + 3
   \<and> shiftKey \<lparr>keyCode = 51, shiftKey = True\<rparr>
   \<and> focusedColumn focused_grid = Some (body, 1)
   \<and> columns (columnManager (onKeyDown dom_keys focused_grid \<lparr>keyCode = 51, shiftKey = True\<rparr>)) (body, 1)
       = Some \<lparr>precision = Number 3\<rparr>
   \<and> columns (columnManager (onKeyDown dom_keys focused_grid \<lparr>keyCode = 51, shiftKey = True\<rparr>)) (body, 0)
       = Some \<lparr>precision = Number 2\<rparr>
   \<and> \<not> (shiftKey \<lparr>keyCode = 51, shiftKey = False\<rparr> \<and> focusedColumn focused_grid \<noteq> None)
   \<and> columns (columnManager (onKeyDown dom_keys focused_grid \<lparr>keyCode = 51, shiftKey = False\<rparr>)) (body, 0)
       = Some \<lparr>precision = Number 3\<rparr>
   \<and> columns (columnManager (onKeyDown dom_keys focused_grid \<lparr>keyCode = 51, shiftKey = False\<rparr>)) (body, 1)
       = Some \<lparr>precision = Number 3\<rparr>"
proof -
  have k: "Digit0 dom_keys = 48" "Digit9 dom_keys = 57" by (simp_all add: dom_keys_def)
  have d: "(0::int) \<le> 3" "(3::int) \<le> 9" by simp_all
  have e: "keyCode \<lparr>keyCode = 51, shiftKey = True\<rparr> = 48 + 3"
          "keyCode \<lparr>keyCode = 51, shiftKey = False\<rparr> = 48 + 3" by simp_all
  have f: "focusedColumn focused_grid = Some (body, 1)"
    by (simp add: focusedColumn_def focused_grid_def sample_grid_def takeColumnByCell_def
          getColumnByPosition_def sample_cell_def)
  have c: "columns (columnManager focused_grid) (body, 0) = Some \<lparr>precision = Number 2\<rparr>"
          "columns (columnManager focused_grid) (body, 1) = Some \<lparr>precision = Number 2\<rparr>"
    by (simp_all add: focused_grid_def sample_grid_def)
  show ?thesis
    using onKeyDown_digit_precision [OF k d e(1), of focused_grid "(body, 1)"]
          onKeyDown_digit_precision [OF k d e(2), of focused_grid "(body, 1)"]
    by (simp add: k f c)
qed

end
